theory Spec2Isabelle
  imports Main
begin

section \<open>Values, fields and coordinator data\<close>

text \<open>
  The values a coordinator snapshot can hold. \<open>PyEnum cls n\<close> is the member named \<open>n\<close>
  of the enum class \<open>cls\<close>; a select field's values are members of the field's enum
  \<open>field.e\<close>.
\<close>

datatype py_value =
    PyNone
  | PyBool bool
  | PyInt int
  | PyStr string
  | PyEnum string string

text \<open>An enum class: its identity and the names of its members, in definition order.\<close>

record py_enum =
  enum_cls :: string
  enum_members :: "string list"

text \<open>\<open>SelectField\<close> of the device library, as far as \<open>select.py\<close> reads it.\<close>

record select_field =
  field_name :: string
  field_e :: py_enum

text \<open>\<open>isinstance(v, e)\<close> for an enum class \<open>e\<close>.\<close>

fun isinstance :: "py_value \<Rightarrow> py_enum \<Rightarrow> bool" where
  "isinstance (PyEnum cls n) e = (cls = enum_cls e)"
| "isinstance v e = False"

text \<open>
  \<open>v.name\<close>. Only enum members have a name; the source reads it behind the
  \<open>isinstance\<close> check only.
\<close>

fun member_name :: "py_value \<Rightarrow> string option" where
  "member_name (PyEnum cls n) = Some n"
| "member_name v = None"

text \<open>\<open>d.get(k)\<close>: the value under the key, \<open>None\<close> when the key is missing.\<close>

definition dict_get :: "(string \<rightharpoonup> py_value) \<Rightarrow> string \<Rightarrow> py_value" where
  "dict_get m k = (case m k of None \<Rightarrow> PyNone | Some v \<Rightarrow> v)"

text \<open>
  \<open>coordinator.data\<close> as the update handler tells it apart: \<open>None\<close>, a value that is
  not a \<open>dict\<close>, or a \<open>dict\<close> from response keys to values.
\<close>

datatype coordinator_data =
    DataNone
  | DataNotDict
  | DataDict "string \<rightharpoonup> py_value"

section \<open>The poller's connection\<close>

record ble_client =
  is_connected :: bool

record encryption_state =
  is_ready_for_commands :: bool

record device_reader =
  client :: "ble_client option"
  encryption :: "encryption_state option"

text \<open>
  The coordinator at the moment a write decides on its connection. \<open>reader = None\<close> is
  a coordinator without the attribute (\<open>hasattr(self.coordinator, 'reader')\<close> false).
\<close>

record polling_coordinator =
  reader :: "device_reader option"

section \<open>The select entity\<close>

text \<open>
  The exceptions the code tells apart: the builtin \<open>TimeoutError\<close>, the host's
  \<open>ConfigEntryNotReady\<close> with its message, and any other \<open>Exception\<close>, by name.
  Cancellation of the running coroutine is not modelled.
\<close>

datatype exn =
    TimeoutError
  | ConfigEntryNotReady string
  | OtherException string

record device_writer_config =
  timeout :: int
  config_use_encryption :: bool

record device_writer =
  writer_address :: string
  writer_config :: device_writer_config
  shared_client :: "ble_client option"
  shared_encryption :: "encryption_state option"

text \<open>What \<open>async_write_ha_state\<close> reads from the entity and hands to the host.\<close>

record ha_state =
  st_available :: bool
  st_current_option :: "string option"
  st_attributes :: "(string \<rightharpoonup> py_value) option"

text \<open>
  The effects of the entity on the outside, in program order: a published state, the
  device exchange \<open>writer.write(field.name, state)\<close>, \<open>asyncio.sleep\<close>, and
  \<open>coordinator.async_refresh()\<close>. Logging is left out.
\<close>

datatype effect =
    WriteHaState ha_state
  | WriterWrite device_writer string string
  | Sleep nat
  | AsyncRefresh

text \<open>
  \<open>BluettiSelect\<close>: the attributes \<open>__init__\<close> sets and the methods change, and the log
  of effects so far. \<open>attr_extra_state_attributes = None\<close> is the attribute not yet set.
\<close>

record bluetti_select =
  address :: string
  field :: select_field
  response_key :: string
  unavailable_counter :: int
  use_encryption :: bool
  attr_options :: "string list"
  attr_available :: bool
  attr_extra_state_attributes :: "(string \<rightharpoonup> py_value) option"
  current_option :: "string option"
  write_in_progress :: bool
  effects :: "effect list"

definition bluetti_select_init :: "string \<Rightarrow> select_field \<Rightarrow> bool \<Rightarrow> bluetti_select" where
  "bluetti_select_init addr f use_enc =
     \<lparr> address = addr,
       field = f,
       response_key = field_name f,
       unavailable_counter = 5,
       use_encryption = use_enc,
       attr_options = enum_members (field_e f),
       attr_available = False,
       attr_extra_state_attributes = None,
       current_option = None,
       write_in_progress = False,
       effects = [] \<rparr>"

definition available :: "bluetti_select \<Rightarrow> bool" where
  "available s = attr_available s"

definition async_write_ha_state :: "bluetti_select \<Rightarrow> bluetti_select" where
  "async_write_ha_state s =
     s\<lparr>effects := effects s @
          [WriteHaState \<lparr> st_available = attr_available s,
                          st_current_option = current_option s,
                          st_attributes = attr_extra_state_attributes s \<rparr>]\<rparr>"

definition set_available :: "bluetti_select \<Rightarrow> bluetti_select" where
  "set_available s =
     async_write_ha_state
       (s\<lparr>attr_available := True,
          unavailable_counter := 0,
          attr_extra_state_attributes := Some Map.empty\<rparr>)"

definition stale_attributes :: "int \<Rightarrow> string \<Rightarrow> (string \<rightharpoonup> py_value)" where
  "stale_attributes n cause =
     [''unavailable_counter'' \<mapsto> PyInt n,
      ''unavailable_cause'' \<mapsto> PyStr cause,
      ''data_stale'' \<mapsto> PyBool True]"

definition set_unavailable :: "string \<Rightarrow> bluetti_select \<Rightarrow> bluetti_select" where
  "set_unavailable cause s =
     (let n = unavailable_counter s + 1
      in async_write_ha_state
           (s\<lparr>unavailable_counter := n,
              attr_extra_state_attributes := Some (stale_attributes n cause)\<rparr>))"

definition handle_coordinator_update :: "coordinator_data \<Rightarrow> bluetti_select \<Rightarrow> bluetti_select" where
  "handle_coordinator_update d s =
     (if write_in_progress s then s
      else case d of
        DataNone \<Rightarrow> set_unavailable ''Data is None'' s
      | DataNotDict \<Rightarrow> set_unavailable ''Invalid data'' s
      | DataDict m \<Rightarrow>
          (let response_data = dict_get m (response_key s)
           in if response_data = PyNone then set_unavailable ''No data'' s
              else if \<not> isinstance response_data (field_e (field s))
                then set_unavailable ''Invalid data type'' s
              else async_write_ha_state
                     ((set_available s)\<lparr>current_option := member_name response_data\<rparr>)))"

text \<open>
  A run of coordinator updates delivered to the entity one after the other, each with the
  coordinator's data of that moment.
\<close>

fun deliver :: "coordinator_data list \<Rightarrow> bluetti_select \<Rightarrow> bluetti_select" where
  "deliver [] s = s"
| "deliver (d # ds) s = deliver ds (handle_coordinator_update d s)"

subsection \<open>Writing to the device\<close>

text \<open>
  Lines 206 to 236 of \<open>write_to_device\<close>: the choice of connection and timeout, and the
  \<open>DeviceWriter\<close> built from it.
\<close>

definition build_writer :: "polling_coordinator \<Rightarrow> bluetti_select \<Rightarrow> device_writer" where
  "build_writer c s =
     (case reader c of
        None \<Rightarrow>
          \<lparr> writer_address = address s,
            writer_config = \<lparr> timeout = 45, config_use_encryption = use_encryption s \<rparr>,
            shared_client = None, shared_encryption = None \<rparr>
      | Some r \<Rightarrow>
          (case (client r, encryption r) of
             (Some cl, Some en) \<Rightarrow>
               (if is_connected cl \<and> is_ready_for_commands en
                then \<lparr> writer_address = address s,
                       writer_config = \<lparr> timeout = 10, config_use_encryption = use_encryption s \<rparr>,
                       shared_client = Some cl, shared_encryption = Some en \<rparr>
                else \<lparr> writer_address = address s,
                       writer_config = \<lparr> timeout = 45, config_use_encryption = use_encryption s \<rparr>,
                       shared_client = None, shared_encryption = None \<rparr>)
           | _ \<Rightarrow>
               \<lparr> writer_address = address s,
                 writer_config = \<lparr> timeout = 45, config_use_encryption = use_encryption s \<rparr>,
                 shared_client = None, shared_encryption = None \<rparr>))"

text \<open>
  What the surroundings do during one write: the coordinator updates delivered to the
  entity while \<open>writer.write\<close> is awaited, whether \<open>writer.write\<close> returns (\<open>None\<close>) or
  raises, the updates delivered during the settle delay, and the follow-up refresh.
\<close>

text \<open>
  Modelled from the spec: \<open>PollingCoordinator.async_refresh\<close> (\<open>coordinator.py\<close>) is
  not among the sources. By section 4.2 a refresh whose fetch fails records the error
  in the coordinator and goes back to idle, so the call returns on success and on
  failure alike; \<open>refresh_succeeds\<close> says which, and \<open>during_refresh\<close> are the updates the
  refresh delivers to the entity before it returns.
\<close>

record write_env =
  during_write :: "coordinator_data list"
  write_result :: "exn option"
  during_sleep :: "coordinator_data list"
  refresh_succeeds :: bool
  during_refresh :: "coordinator_data list"

text \<open>
  \<open>write_to_device\<close>. The result is the entity afterwards and what the caller gets:
  \<open>Inr ()\<close> for a return (of \<open>None\<close>), \<open>Inl e\<close> for the exception \<open>e\<close> leaving the
  method. The \<open>finally\<close> block runs on each of the three paths.
\<close>

definition write_to_device ::
  "polling_coordinator \<Rightarrow> write_env \<Rightarrow> string \<Rightarrow> bluetti_select \<Rightarrow> bluetti_select \<times> (exn + unit)" where
  "write_to_device c env state s =
     (let writer = build_writer c s;
          s1 = deliver (during_write env)
                 (s\<lparr>effects := effects s @ [WriterWrite writer (field_name (field s)) state]\<rparr>)
      in case write_result env of
           Some err \<Rightarrow>
             (if err = TimeoutError
              then (s1\<lparr>write_in_progress := False\<rparr>, Inr ())
              else (s1\<lparr>write_in_progress := False\<rparr>, Inl err))
         | None \<Rightarrow>
             (let s2 = deliver (during_sleep env) (s1\<lparr>effects := effects s1 @ [Sleep 3]\<rparr>);
                  s3 = s2\<lparr>write_in_progress := False\<rparr>;
                  s4 = deliver (during_refresh env) (s3\<lparr>effects := effects s3 @ [AsyncRefresh]\<rparr>)
              in (s4, Inr ())))"

text \<open>Lines 195 to 197 of \<open>async_select_option\<close>: the optimistic state and its publication.\<close>

definition optimistic_state :: "string \<Rightarrow> bluetti_select \<Rightarrow> bluetti_select" where
  "optimistic_state option s =
     async_write_ha_state (s\<lparr>current_option := Some option, write_in_progress := True\<rparr>)"

definition async_select_option ::
  "polling_coordinator \<Rightarrow> write_env \<Rightarrow> string \<Rightarrow> bluetti_select \<Rightarrow> bluetti_select \<times> (exn + unit)" where
  "async_select_option c env option s = write_to_device c env option (optimistic_state option s)"

subsection \<open>Sequences of operations on one entity\<close>

text \<open>
  The checks of the update handler on a snapshot, for the response key \<open>k\<close> and the
  enum \<open>e\<close> of a field: the data is a \<open>dict\<close>, it has a value other than \<open>None\<close> under
  \<open>k\<close>, and the value is an instance of \<open>e\<close>.
\<close>

definition snapshot_valid :: "string \<Rightarrow> py_enum \<Rightarrow> coordinator_data \<Rightarrow> bool" where
  "snapshot_valid k e d =
     (case d of
        DataDict m \<Rightarrow> dict_get m k \<noteq> PyNone \<and> isinstance (dict_get m k) e
      | _ \<Rightarrow> False)"

text \<open>
  An operation on the entity: a coordinator update delivered while no write is running,
  or a user's select with everything that happens during it.
\<close>

datatype operation =
    CoordinatorUpdate coordinator_data
  | SelectOption polling_coordinator write_env string

fun apply_operation :: "operation \<Rightarrow> bluetti_select \<Rightarrow> bluetti_select" where
  "apply_operation (CoordinatorUpdate d) s = handle_coordinator_update d s"
| "apply_operation (SelectOption c env option) s = fst (async_select_option c env option s)"

fun run_operations :: "operation list \<Rightarrow> bluetti_select \<Rightarrow> bluetti_select" where
  "run_operations [] s = s"
| "run_operations (x # xs) s = run_operations xs (apply_operation x s)"


text \<open>The effects other than published states: device exchanges, delays, refreshes.\<close>

fun is_publication :: "effect \<Rightarrow> bool" where
  "is_publication (WriteHaState st) = True"
| "is_publication x = False"

definition device_effects :: "effect list \<Rightarrow> effect list" where
  "device_effects xs = filter (\<lambda>x. \<not> is_publication x) xs"

section \<open>Setting up the integration\<close>

text \<open>
  \<open>async_setup_entry\<close> of \<open>__init__.py\<close>. Its surroundings: whether the stored
  configuration parses, whether the device's address is present, and what the
  \<open>attempt\<close>-th call of \<open>async_config_entry_first_refresh\<close> does: \<open>None\<close> when it
  returns, \<open>Some err\<close> when it raises \<open>err\<close>. Every \<open>exn\<close> is an \<open>Exception\<close>, so the
  loop's \<open>except Exception\<close> catches it. The effects are the refresh attempts, the
  sleeps between them, the two entries stored in \<open>hass.data\<close> and the forwarding of the
  entry to the platforms, which is taken to return.
\<close>

record setup_env =
  config_present :: bool
  address_present :: bool
  first_refresh :: "nat \<Rightarrow> exn option"

datatype setup_effect =
    FirstRefresh nat
  | RetrySleep nat
  | StoreCoordinator
  | StoreLock
  | ForwardEntrySetups

definition max_initial_attempts :: nat where
  "max_initial_attempts = 5"

definition initial_retry_delay :: nat where
  "initial_retry_delay = 5"

text \<open>
  The \<open>for attempt in range(1, max_initial_attempts + 1)\<close> loop over the attempts still
  to make; \<open>tr\<close> are the effects so far. A success leaves the loop (\<open>break\<close>).
\<close>

fun retry_loop :: "(nat \<Rightarrow> exn option) \<Rightarrow> nat list \<Rightarrow> setup_effect list \<Rightarrow> setup_effect list" where
  "retry_loop out [] tr = tr"
| "retry_loop out (attempt # rest) tr =
     (case out attempt of
        None \<Rightarrow> tr @ [FirstRefresh attempt]
      | Some err \<Rightarrow>
          (if attempt < max_initial_attempts
           then retry_loop out rest (tr @ [FirstRefresh attempt, RetrySleep initial_retry_delay])
           else retry_loop out rest (tr @ [FirstRefresh attempt])))"

definition async_setup_entry :: "setup_env \<Rightarrow> setup_effect list \<times> (exn + bool)" where
  "async_setup_entry env =
     (if \<not> config_present env then ([], Inr False)
      else if \<not> address_present env
        then ([], Inl (ConfigEntryNotReady ''Bluetti device not present''))
      else (retry_loop (first_refresh env) [1..<max_initial_attempts + 1] []
              @ [StoreCoordinator, StoreLock, ForwardEntrySetups],
            Inr True))"

text \<open>The number of refresh attempts among the effects of a setup.\<close>

fun is_attempt :: "setup_effect \<Rightarrow> bool" where
  "is_attempt (FirstRefresh n) = True"
| "is_attempt x = False"

definition attempts_made :: "setup_effect list \<Rightarrow> nat" where
  "attempts_made tr = length (filter is_attempt tr)"

section \<open>A concrete entity\<close>

text \<open>
  A select for a charging mode with three options, a coordinator whose connection is
  ready for commands and one whose client is not connected, surroundings in which
  nothing else happens during a write, and two setups: one whose first refresh succeeds
  at the third attempt, one whose first refresh always fails.
\<close>

definition mode_field :: select_field where
  "mode_field =
     \<lparr> field_name = ''charging_mode'',
       field_e = \<lparr> enum_cls = ''ChargingMode'',
                   enum_members = [''STANDARD'', ''SILENT'', ''TURBO''] \<rparr> \<rparr>"

definition mode_select :: bluetti_select where
  "mode_select = bluetti_select_init ''AA:BB:CC:DD:EE:FF'' mode_field True"

definition silent_snapshot :: coordinator_data where
  "silent_snapshot = DataDict [''charging_mode'' \<mapsto> PyEnum ''ChargingMode'' ''SILENT'']"

definition ready_coordinator :: polling_coordinator where
  "ready_coordinator =
     \<lparr> reader = Some \<lparr> client = Some \<lparr> is_connected = True \<rparr>,
                       encryption = Some \<lparr> is_ready_for_commands = True \<rparr> \<rparr> \<rparr>"

definition disconnected_coordinator :: polling_coordinator where
  "disconnected_coordinator =
     \<lparr> reader = Some \<lparr> client = Some \<lparr> is_connected = False \<rparr>,
                       encryption = Some \<lparr> is_ready_for_commands = True \<rparr> \<rparr> \<rparr>"

definition quiet_env :: write_env where
  "quiet_env =
     \<lparr> during_write = [], write_result = None, during_sleep = [],
       refresh_succeeds = True, during_refresh = [] \<rparr>"

definition flaky_env :: setup_env where
  "flaky_env =
     \<lparr> config_present = True, address_present = True,
       first_refresh = (\<lambda>attempt. if attempt < 3 then Some TimeoutError else None) \<rparr>"

definition unreachable_env :: setup_env where
  "unreachable_env =
     \<lparr> config_present = True, address_present = True,
       first_refresh = (\<lambda>attempt. Some (OtherException ''BleakError'')) \<rparr>"

lemmas example_defs =
  mode_field_def mode_select_def silent_snapshot_def ready_coordinator_def
  quiet_env_def bluetti_select_init_def

section \<open>Basic facts\<close>

subsection \<open>What the update handler keeps\<close>

lemmas handler_defs =
  handle_coordinator_update_def set_unavailable_def set_available_def async_write_ha_state_def

lemma handle_in_progress: "write_in_progress s \<Longrightarrow> handle_coordinator_update d s = s"
  by (simp add: handle_coordinator_update_def)


lemma handle_keeps_flag [simp]:
  "write_in_progress (handle_coordinator_update d s) = write_in_progress s"
  by (simp add: handler_defs Let_def split: coordinator_data.splits)

lemma handle_keeps_field [simp]:
  "field (handle_coordinator_update d s) = field s"
  by (simp add: handler_defs Let_def split: coordinator_data.splits)

lemma handle_keeps_key [simp]:
  "response_key (handle_coordinator_update d s) = response_key s"
  by (simp add: handler_defs Let_def split: coordinator_data.splits)

lemma handle_keeps_address [simp]:
  "address (handle_coordinator_update d s) = address s"
  by (simp add: handler_defs Let_def split: coordinator_data.splits)

lemma handle_keeps_encryption [simp]:
  "use_encryption (handle_coordinator_update d s) = use_encryption s"
  by (simp add: handler_defs Let_def split: coordinator_data.splits)

lemma device_effects_append [simp]:
  "device_effects (xs @ ys) = device_effects xs @ device_effects ys"
  by (simp add: device_effects_def)

lemma device_effects_Cons [simp]:
  "device_effects (x # xs) = (if is_publication x then device_effects xs else x # device_effects xs)"
  by (simp add: device_effects_def)

lemma device_effects_Nil [simp]: "device_effects [] = []"
  by (simp add: device_effects_def)

lemma handle_device_effects [simp]:
  "device_effects (effects (handle_coordinator_update d s)) = device_effects (effects s)"
  by (simp add: handler_defs Let_def split: coordinator_data.splits)

lemma handle_effects_grow:
  "\<exists>rest. effects (handle_coordinator_update d s) = effects s @ rest"
  by (simp add: handler_defs Let_def split: coordinator_data.splits)

lemma handle_available_mono:
  "attr_available s \<Longrightarrow> attr_available (handle_coordinator_update d s)"
  by (simp add: handler_defs Let_def split: coordinator_data.splits)

lemma deliver_keeps_flag [simp]: "write_in_progress (deliver ds s) = write_in_progress s"
  by (induction ds arbitrary: s) simp_all

lemma deliver_keeps_field [simp]: "field (deliver ds s) = field s"
  by (induction ds arbitrary: s) simp_all

lemma deliver_keeps_key [simp]: "response_key (deliver ds s) = response_key s"
  by (induction ds arbitrary: s) simp_all

lemma deliver_keeps_address [simp]: "address (deliver ds s) = address s"
  by (induction ds arbitrary: s) simp_all

lemma deliver_keeps_encryption [simp]: "use_encryption (deliver ds s) = use_encryption s"
  by (induction ds arbitrary: s) simp_all

lemma deliver_device_effects [simp]:
  "device_effects (effects (deliver ds s)) = device_effects (effects s)"
  by (induction ds arbitrary: s) simp_all

lemma deliver_effects_grow: "\<exists>rest. effects (deliver ds s) = effects s @ rest"
proof (induction ds arbitrary: s)
  case Nil
  show ?case by simp
next
  case (Cons d ds)
  obtain r1 where r1: "effects (handle_coordinator_update d s) = effects s @ r1"
    using handle_effects_grow by blast
  obtain r2 where "effects (deliver ds (handle_coordinator_update d s))
      = effects (handle_coordinator_update d s) @ r2"
    using Cons.IH by blast
  with r1 show ?case by simp
qed

lemma deliver_available_mono: "attr_available s \<Longrightarrow> attr_available (deliver ds s)"
  by (induction ds arbitrary: s) (simp_all add: handle_available_mono)

lemma deliver_append: "deliver (xs @ ys) s = deliver ys (deliver xs s)"
  by (induction xs arbitrary: s) simp_all

lemma handle_valid:
  "\<not> write_in_progress s \<Longrightarrow> snapshot_valid (response_key s) (field_e (field s)) d \<Longrightarrow>
     unavailable_counter (handle_coordinator_update d s) = 0
     \<and> attr_available (handle_coordinator_update d s)"
  by (cases d) (simp_all add: handler_defs snapshot_valid_def Let_def)

lemma handle_invalid:
  "\<not> write_in_progress s \<Longrightarrow> \<not> snapshot_valid (response_key s) (field_e (field s)) d \<Longrightarrow>
     \<exists>cause. handle_coordinator_update d s = set_unavailable cause s"
  by (cases d) (auto simp add: handle_coordinator_update_def snapshot_valid_def Let_def)

subsection \<open>The effects of a write\<close>

lemma build_writer_cong:
  "address s' = address s \<Longrightarrow> use_encryption s' = use_encryption s \<Longrightarrow>
     build_writer c s' = build_writer c s"
  by (simp add: build_writer_def split: option.splits)

lemma write_effects_start:
  "\<exists>rest. effects (fst (write_to_device c env state s))
      = effects s @ WriterWrite (build_writer c s) (field_name (field s)) state # rest"
proof -
  let ?s0 = "s\<lparr>effects := effects s @ [WriterWrite (build_writer c s) (field_name (field s)) state]\<rparr>"
  let ?s1 = "deliver (during_write env) ?s0"
  obtain r1 where r1: "effects ?s1 = effects ?s0 @ r1"
    using deliver_effects_grow by blast
  show ?thesis
  proof (cases "write_result env")
    case (Some err)
    with r1 show ?thesis
      by (simp add: write_to_device_def Let_def)
  next
    case None
    let ?s2 = "deliver (during_sleep env) (?s1\<lparr>effects := effects ?s1 @ [Sleep 3]\<rparr>)"
    let ?s3 = "?s2\<lparr>write_in_progress := False\<rparr>"
    let ?s4 = "deliver (during_refresh env) (?s3\<lparr>effects := effects ?s3 @ [AsyncRefresh]\<rparr>)"
    obtain r2 where r2: "effects ?s2 = effects (?s1\<lparr>effects := effects ?s1 @ [Sleep 3]\<rparr>) @ r2"
      using deliver_effects_grow by blast
    obtain r3 where r3: "effects ?s4 = effects (?s3\<lparr>effects := effects ?s3 @ [AsyncRefresh]\<rparr>) @ r3"
      using deliver_effects_grow by blast
    have "fst (write_to_device c env state s) = ?s4"
      using None by (simp add: write_to_device_def Let_def)
    with r1 r2 r3 show ?thesis by simp
  qed
qed

lemma write_device_effects:
  "device_effects (effects (fst (write_to_device c env state s))) =
     device_effects (effects s) @
       (case write_result env of
          None \<Rightarrow> [WriterWrite (build_writer c s) (field_name (field s)) state, Sleep 3, AsyncRefresh]
        | Some err \<Rightarrow> [WriterWrite (build_writer c s) (field_name (field s)) state])"
proof (cases "write_result env")
  case None
  then show ?thesis
    by (simp add: write_to_device_def Let_def)
next
  case (Some err)
  then show ?thesis
    by (simp add: write_to_device_def Let_def)
qed

subsection \<open>The counter and the availability over updates and operations\<close>

lemma snapshot_valid_iff:
  "snapshot_valid k e d = (\<exists>m v. d = DataDict m \<and> m k = Some v \<and> isinstance v e)"
  by (cases d) (auto simp add: snapshot_valid_def dict_get_def split: option.splits)

lemma handle_counter:
  "\<not> write_in_progress s \<Longrightarrow>
     unavailable_counter (handle_coordinator_update d s)
       = (if snapshot_valid (response_key s) (field_e (field s)) d then 0
          else unavailable_counter s + 1)"
  by (cases d) (simp_all add: handler_defs snapshot_valid_def Let_def)

lemma deliver_failures:
  "\<not> write_in_progress s \<Longrightarrow>
   list_all (\<lambda>d. \<not> snapshot_valid (response_key s) (field_e (field s)) d) ds \<Longrightarrow>
     unavailable_counter (deliver ds s) = unavailable_counter s + int (length ds)"
  by (induction ds arbitrary: s) (simp_all add: handle_counter)



lemma write_keeps_key [simp]:
  "response_key (fst (write_to_device c env state s)) = response_key s"
  by (simp add: write_to_device_def Let_def split: option.splits)

lemma write_keeps_field [simp]:
  "field (fst (write_to_device c env state s)) = field s"
  by (simp add: write_to_device_def Let_def split: option.splits)


lemma write_available_mono:
  "attr_available s \<Longrightarrow> attr_available (fst (write_to_device c env state s))"
  by (simp add: write_to_device_def Let_def deliver_available_mono split: option.splits)

lemma apply_keeps_key [simp]: "response_key (apply_operation x s) = response_key s"
  by (cases x) (simp_all add: async_select_option_def optimistic_state_def async_write_ha_state_def)

lemma apply_keeps_field [simp]: "field (apply_operation x s) = field s"
  by (cases x) (simp_all add: async_select_option_def optimistic_state_def async_write_ha_state_def)

lemma apply_available_mono: "attr_available s \<Longrightarrow> attr_available (apply_operation x s)"
  by (cases x)
    (simp_all add: handle_available_mono async_select_option_def write_available_mono
      optimistic_state_def async_write_ha_state_def)


lemma run_available_mono: "attr_available s \<Longrightarrow> attr_available (run_operations xs s)"
  by (induction xs arbitrary: s) (simp_all add: apply_available_mono)


subsection \<open>The retry loop\<close>

lemma retry_loop_failures:
  "(\<forall>i \<in> set xs. out i \<noteq> None \<and> i < max_initial_attempts) \<Longrightarrow>
     retry_loop out (xs @ ys) tr
       = retry_loop out ys
           (tr @ concat (map (\<lambda>i. [FirstRefresh i, RetrySleep initial_retry_delay]) xs))"
  by (induction xs arbitrary: tr) auto

lemma retry_loop_attempts:
  "attempts_made (retry_loop out xs tr) \<le> attempts_made tr + length xs"
proof (induction xs arbitrary: tr)
  case Nil
  show ?case by simp
next
  case (Cons a xs)
  show ?case
  proof (cases "out a")
    case None
    then show ?thesis by (simp add: attempts_made_def)
  next
    case (Some err)
    have "attempts_made (retry_loop out xs (tr @ [FirstRefresh a, RetrySleep initial_retry_delay]))
        \<le> attempts_made (tr @ [FirstRefresh a, RetrySleep initial_retry_delay]) + length xs"
      by (rule Cons.IH)
    moreover have "attempts_made (retry_loop out xs (tr @ [FirstRefresh a]))
        \<le> attempts_made (tr @ [FirstRefresh a]) + length xs"
      by (rule Cons.IH)
    ultimately show ?thesis
      using Some by (simp add: attempts_made_def)
  qed
qed

lemma attempts_split:
  assumes "1 \<le> k" "k \<le> 5"
  shows "[1..<max_initial_attempts + 1] = [1..<k] @ k # [Suc k..<6]"
proof -
  have "[1..<max_initial_attempts + 1] = [1..<k + (6 - k)]"
    using assms by (simp add: max_initial_attempts_def)
  also have "\<dots> = [1..<k] @ [k..<k + (6 - k)]"
    using assms(1) by (rule upt_add_eq_append)
  also have "[k..<k + (6 - k)] = k # [Suc k..<6]"
    using assms by (simp add: upt_conv_Cons)
  finally show ?thesis .
qed

lemma attempts_last: "[1..<max_initial_attempts + 1] = [1..<5] @ [5]"
  using attempts_split [of 5] by simp

lemma retry_loop_success:
  assumes "1 \<le> k" "k \<le> 5" "out k = None" "\<forall>i. 1 \<le> i \<and> i < k \<longrightarrow> out i \<noteq> None"
  shows "retry_loop out [1..<max_initial_attempts + 1] []
     = concat (map (\<lambda>i. [FirstRefresh i, RetrySleep 5]) [1..<k]) @ [FirstRefresh k]"
proof -
  have f: "\<forall>i \<in> set [1..<k]. out i \<noteq> None \<and> i < max_initial_attempts"
    using assms by (auto simp add: max_initial_attempts_def)
  have "retry_loop out [1..<max_initial_attempts + 1] []
      = retry_loop out ([1..<k] @ k # [Suc k..<6]) []"
    by (simp only: attempts_split [OF assms(1,2)])
  also have "\<dots> = retry_loop out (k # [Suc k..<6])
          ([] @ concat (map (\<lambda>i. [FirstRefresh i, RetrySleep initial_retry_delay]) [1..<k]))"
    using f by (rule retry_loop_failures)
  also have "\<dots> = concat (map (\<lambda>i. [FirstRefresh i, RetrySleep 5]) [1..<k]) @ [FirstRefresh k]"
    using assms(3) by (simp add: initial_retry_delay_def)
  finally show ?thesis .
qed

lemma retry_loop_exhausted:
  assumes "\<forall>i. 1 \<le> i \<and> i \<le> 5 \<longrightarrow> out i \<noteq> None"
  shows "retry_loop out [1..<max_initial_attempts + 1] []
     = concat (map (\<lambda>i. [FirstRefresh i, RetrySleep 5]) [1..<5]) @ [FirstRefresh 5]"
proof -
  have f: "\<forall>i \<in> set [1..<5]. out i \<noteq> None \<and> i < max_initial_attempts"
    using assms by (auto simp add: max_initial_attempts_def)
  have "out 5 \<noteq> None"
    using assms by simp
  then obtain err where l: "out 5 = Some err"
    by blast
  have "retry_loop out [1..<max_initial_attempts + 1] [] = retry_loop out ([1..<5] @ [5]) []"
    by (simp only: attempts_last)
  also have "\<dots> = retry_loop out [5]
          ([] @ concat (map (\<lambda>i. [FirstRefresh i, RetrySleep initial_retry_delay]) [1..<5]))"
    using f by (rule retry_loop_failures)
  also have "\<dots> = concat (map (\<lambda>i. [FirstRefresh i, RetrySleep 5]) [1..<5]) @ [FirstRefresh 5]"
    using l by (simp add: initial_retry_delay_def max_initial_attempts_def)
  finally show ?thesis .
qed

lemma upt_1_3: "[Suc 0..<3] = [Suc 0, 2]"
  by (simp add: upt_rec)

lemma upt_1_5: "[Suc 0..<5] = [Suc 0, 2, 3, 4]"
  by (simp add: upt_rec)

section \<open>Updates while a write is in progress\<close>



section \<open>The connection a write uses\<close>

text \<open>
  C2. Every write performs its device exchange with the writer \<open>build_writer\<close> builds at
  that moment. The writer holds the coordinator's client and encryption state and the
  timeout 10 exactly when the coordinator has a reader whose client exists and is
  connected and whose encryption state exists and is ready for commands; in every other
  case it holds no shared client, no shared encryption state and the timeout 45.
\<close>

theorem write_connection_choice:
  "(\<exists>rest. effects (fst (write_to_device c env state s))
       = effects s @ WriterWrite (build_writer c s) (field_name (field s)) state # rest)
   \<and> ((\<exists>r cl en. reader c = Some r \<and> client r = Some cl \<and> is_connected cl
          \<and> encryption r = Some en \<and> is_ready_for_commands en
          \<and> build_writer c s =
              \<lparr> writer_address = address s,
                writer_config = \<lparr> timeout = 10, config_use_encryption = use_encryption s \<rparr>,
                shared_client = Some cl, shared_encryption = Some en \<rparr>)
       \<or> ((\<nexists>r cl en. reader c = Some r \<and> client r = Some cl \<and> is_connected cl
              \<and> encryption r = Some en \<and> is_ready_for_commands en)
          \<and> build_writer c s =
              \<lparr> writer_address = address s,
                writer_config = \<lparr> timeout = 45, config_use_encryption = use_encryption s \<rparr>,
                shared_client = None, shared_encryption = None \<rparr>))"
proof
  show "\<exists>rest. effects (fst (write_to_device c env state s))
       = effects s @ WriterWrite (build_writer c s) (field_name (field s)) state # rest"
    by (rule write_effects_start)
next
  show "(\<exists>r cl en. reader c = Some r \<and> client r = Some cl \<and> is_connected cl
          \<and> encryption r = Some en \<and> is_ready_for_commands en
          \<and> build_writer c s =
              \<lparr> writer_address = address s,
                writer_config = \<lparr> timeout = 10, config_use_encryption = use_encryption s \<rparr>,
                shared_client = Some cl, shared_encryption = Some en \<rparr>)
       \<or> ((\<nexists>r cl en. reader c = Some r \<and> client r = Some cl \<and> is_connected cl
              \<and> encryption r = Some en \<and> is_ready_for_commands en)
          \<and> build_writer c s =
              \<lparr> writer_address = address s,
                writer_config = \<lparr> timeout = 45, config_use_encryption = use_encryption s \<rparr>,
                shared_client = None, shared_encryption = None \<rparr>)"
    by (auto simp add: build_writer_def split: option.splits)
qed

theorem write_connection_choice_witness:
  "timeout (writer_config (build_writer ready_coordinator mode_select)) = 10
   \<and> shared_client (build_writer ready_coordinator mode_select) = Some \<lparr> is_connected = True \<rparr>
   \<and> timeout (writer_config (build_writer disconnected_coordinator mode_select)) = 45
   \<and> shared_client (build_writer disconnected_coordinator mode_select) = None
   \<and> timeout (writer_config (build_writer \<lparr> reader = None \<rparr> mode_select)) = 45"
  using write_connection_choice [where c = ready_coordinator and s = mode_select]
    write_connection_choice [where c = disconnected_coordinator and s = mode_select]
    write_connection_choice [where c = "\<lparr> reader = None \<rparr>" and s = mode_select]
  by (auto simp add: ready_coordinator_def disconnected_coordinator_def)

section \<open>The write lock is always released\<close>

text \<open>
  C3. When \<open>write_to_device\<close> ends, \<open>write_in_progress\<close> is false, whatever the
  exchange did: it returned, it raised \<open>TimeoutError\<close>, or it raised any other
  exception. So it is after a whole select as well.
\<close>

theorem write_clears_flag:
  "\<not> write_in_progress (fst (write_to_device c env state s))
   \<and> \<not> write_in_progress (fst (async_select_option c env option s))"
  by (simp add: async_select_option_def write_to_device_def Let_def split: option.splits)

section \<open>The optimistic state\<close>

text \<open>
  C7. A select first sets the current option to the requested one and
  \<open>write_in_progress\<close> to true and publishes that state; the device exchange is the
  next effect after the publication.
\<close>

theorem select_publishes_before_write:
  "current_option (optimistic_state option s) = Some option
   \<and> write_in_progress (optimistic_state option s)
   \<and> effects (optimistic_state option s)
       = effects s @ [WriteHaState \<lparr> st_available = attr_available s,
                                     st_current_option = Some option,
                                     st_attributes = attr_extra_state_attributes s \<rparr>]
   \<and> (\<exists>rest. effects (fst (async_select_option c env option s))
         = effects s
             @ WriteHaState \<lparr> st_available = attr_available s,
                              st_current_option = Some option,
                              st_attributes = attr_extra_state_attributes s \<rparr>
             # WriterWrite (build_writer c s) (field_name (field s)) option
             # rest)"
proof -
  have a: "effects (optimistic_state option s)
       = effects s @ [WriteHaState \<lparr> st_available = attr_available s,
                                     st_current_option = Some option,
                                     st_attributes = attr_extra_state_attributes s \<rparr>]"
    by (simp add: optimistic_state_def async_write_ha_state_def)
  have b: "build_writer c (optimistic_state option s) = build_writer c s"
    by (rule build_writer_cong) (simp_all add: optimistic_state_def async_write_ha_state_def)
  have f: "field (optimistic_state option s) = field s"
    by (simp add: optimistic_state_def async_write_ha_state_def)
  obtain rest where "effects (fst (write_to_device c env option (optimistic_state option s)))
      = effects (optimistic_state option s)
          @ WriterWrite (build_writer c (optimistic_state option s))
              (field_name (field (optimistic_state option s))) option # rest"
    using write_effects_start by blast
  then have "effects (fst (async_select_option c env option s))
         = effects s
             @ WriteHaState \<lparr> st_available = attr_available s,
                              st_current_option = Some option,
                              st_attributes = attr_extra_state_attributes s \<rparr>
             # WriterWrite (build_writer c s) (field_name (field s)) option
             # rest"
    by (simp add: a b f async_select_option_def)
  then show ?thesis
    using a by (auto simp add: optimistic_state_def async_write_ha_state_def)
qed

section \<open>After the exchange\<close>

text \<open>
  C8. When the device exchange succeeds, the write sleeps 3 time units after it and
  then calls the coordinator's refresh, once: these three are all its effects other than
  published states, in this order. The write returns normally, and it does so whether
  the refresh succeeds or not and whatever updates the refresh delivers.
\<close>

theorem successful_write_settles_and_refreshes:
  "write_result env = None \<Longrightarrow>
     device_effects (effects (fst (write_to_device c env state s)))
       = device_effects (effects s)
           @ [WriterWrite (build_writer c s) (field_name (field s)) state, Sleep 3, AsyncRefresh]
     \<and> snd (write_to_device c env state s) = Inr ()
     \<and> snd (write_to_device c (env\<lparr>refresh_succeeds := b, during_refresh := ds\<rparr>) state s) = Inr ()"
  by (simp add: write_device_effects) (simp add: write_to_device_def Let_def)

theorem successful_write_settles_and_refreshes_witness:
  "write_result quiet_env = None
   \<and> device_effects (effects (fst (write_to_device ready_coordinator quiet_env ''TURBO'' mode_select)))
       = [WriterWrite (build_writer ready_coordinator mode_select) ''charging_mode'' ''TURBO'',
          Sleep 3, AsyncRefresh]
   \<and> snd (write_to_device ready_coordinator
            (quiet_env\<lparr>refresh_succeeds := False, during_refresh := [DataNone]\<rparr>)
            ''TURBO'' mode_select) = Inr ()"
proof -
  have h: "write_result quiet_env = None"
    by (simp add: quiet_env_def)
  have e: "effects mode_select = []" "field_name (field mode_select) = ''charging_mode''"
    by (simp_all add: example_defs)
  show ?thesis
    using h e
      successful_write_settles_and_refreshes
        [OF h, where c = ready_coordinator and state = "''TURBO''" and s = mode_select
           and b = False and ds = "[DataNone]"]
    by simp
qed

text \<open>
  C10. When the device exchange raises \<open>TimeoutError\<close>, the write returns normally;
  when it raises another exception, that exception leaves the write. In both cases the
  exchange is the write's only effect other than published states, so there is no settle
  delay and no refresh, and \<open>write_in_progress\<close> is false afterwards.
\<close>

theorem failed_write_skips_refresh:
  "write_result env = Some err \<Longrightarrow>
     snd (write_to_device c env state s) = (if err = TimeoutError then Inr () else Inl err)
     \<and> device_effects (effects (fst (write_to_device c env state s)))
         = device_effects (effects s)
             @ [WriterWrite (build_writer c s) (field_name (field s)) state]
     \<and> \<not> write_in_progress (fst (write_to_device c env state s))"
  by (simp add: write_device_effects) (simp add: write_to_device_def Let_def)

theorem failed_write_skips_refresh_witness:
  "snd (write_to_device ready_coordinator (quiet_env\<lparr>write_result := Some TimeoutError\<rparr>)
          ''TURBO'' (optimistic_state ''TURBO'' mode_select)) = Inr ()
   \<and> snd (write_to_device ready_coordinator
            (quiet_env\<lparr>write_result := Some (OtherException ''BleakError'')\<rparr>)
            ''TURBO'' (optimistic_state ''TURBO'' mode_select))
       = Inl (OtherException ''BleakError'')
   \<and> device_effects (effects (fst (write_to_device ready_coordinator
            (quiet_env\<lparr>write_result := Some (OtherException ''BleakError'')\<rparr>)
            ''TURBO'' (optimistic_state ''TURBO'' mode_select))))
       = [WriterWrite (build_writer ready_coordinator mode_select) ''charging_mode'' ''TURBO'']
   \<and> \<not> write_in_progress (fst (write_to_device ready_coordinator
            (quiet_env\<lparr>write_result := Some TimeoutError\<rparr>)
            ''TURBO'' (optimistic_state ''TURBO'' mode_select)))"
proof -
  have t: "write_result (quiet_env\<lparr>write_result := Some TimeoutError\<rparr>) = Some TimeoutError"
    by simp
  have o: "write_result (quiet_env\<lparr>write_result := Some (OtherException ''BleakError'')\<rparr>)
      = Some (OtherException ''BleakError'')"
    by simp
  have b: "build_writer ready_coordinator (optimistic_state ''TURBO'' mode_select)
      = build_writer ready_coordinator mode_select"
    by (rule build_writer_cong) (simp_all add: optimistic_state_def async_write_ha_state_def)
  have e: "device_effects (effects (optimistic_state ''TURBO'' mode_select)) = []"
    "field_name (field (optimistic_state ''TURBO'' mode_select)) = ''charging_mode''"
    by (simp_all add: example_defs optimistic_state_def async_write_ha_state_def)
  show ?thesis
    using b e
      failed_write_skips_refresh
        [OF t, where c = ready_coordinator and state = "''TURBO''"
           and s = "optimistic_state ''TURBO'' mode_select"]
      failed_write_skips_refresh
        [OF o, where c = ready_coordinator and state = "''TURBO''"
           and s = "optimistic_state ''TURBO'' mode_select"]
    by simp
qed

section \<open>The unavailable counter\<close>

text \<open>
  C4. With no write in progress, an update sets the unavailable counter to exactly 0
  when the snapshot holds a value of the field's enum under the response key, and adds
  exactly 1 to it when the snapshot is \<open>None\<close>, is not a \<open>dict\<close>, lacks the key, or holds
  a value there that is not of the field's enum. This holds for every update of every
  sequence of updates: after any updates \<open>ds\<close>, the next update \<open>d\<close> gives 0 or the
  counter after \<open>ds\<close> plus 1. So over a run of failures the counter grows by the length
  of the run, and never decreases within it.
\<close>

theorem unavailable_counter_steps:
  "\<not> write_in_progress s \<Longrightarrow>
     unavailable_counter (handle_coordinator_update DataNone s) = unavailable_counter s + 1
     \<and> unavailable_counter (handle_coordinator_update DataNotDict s) = unavailable_counter s + 1
     \<and> (m (response_key s) = None \<longrightarrow>
          unavailable_counter (handle_coordinator_update (DataDict m) s) = unavailable_counter s + 1)
     \<and> (m (response_key s) = Some v \<and> \<not> isinstance v (field_e (field s)) \<longrightarrow>
          unavailable_counter (handle_coordinator_update (DataDict m) s) = unavailable_counter s + 1)
     \<and> (m (response_key s) = Some v \<and> isinstance v (field_e (field s)) \<longrightarrow>
          unavailable_counter (handle_coordinator_update (DataDict m) s) = 0)
     \<and> unavailable_counter (deliver (ds @ [d]) s)
         = (if snapshot_valid (response_key s) (field_e (field s)) d then 0
            else unavailable_counter (deliver ds s) + 1)
     \<and> (list_all (\<lambda>d. \<not> snapshot_valid (response_key s) (field_e (field s)) d) ds \<longrightarrow>
          unavailable_counter (deliver ds s) = unavailable_counter s + int (length ds))"
proof -
  assume w: "\<not> write_in_progress s"
  have 1: "unavailable_counter (handle_coordinator_update DataNone s) = unavailable_counter s + 1"
    using w by (simp add: handle_counter snapshot_valid_iff)
  have 2: "unavailable_counter (handle_coordinator_update DataNotDict s) = unavailable_counter s + 1"
    using w by (simp add: handle_counter snapshot_valid_iff)
  have 3: "m (response_key s) = None \<longrightarrow>
          unavailable_counter (handle_coordinator_update (DataDict m) s) = unavailable_counter s + 1"
    using w by (simp add: handle_counter snapshot_valid_iff)
  have 4: "m (response_key s) = Some v \<and> \<not> isinstance v (field_e (field s)) \<longrightarrow>
          unavailable_counter (handle_coordinator_update (DataDict m) s) = unavailable_counter s + 1"
    using w by (simp add: handle_counter snapshot_valid_iff)
  have 5: "m (response_key s) = Some v \<and> isinstance v (field_e (field s)) \<longrightarrow>
          unavailable_counter (handle_coordinator_update (DataDict m) s) = 0"
    using w by (simp add: handle_counter snapshot_valid_iff)
  have "\<not> write_in_progress (deliver ds s)"
    using w by simp
  then have 6: "unavailable_counter (deliver (ds @ [d]) s)
         = (if snapshot_valid (response_key s) (field_e (field s)) d then 0
            else unavailable_counter (deliver ds s) + 1)"
    by (simp add: deliver_append handle_counter)
  have 7: "list_all (\<lambda>d. \<not> snapshot_valid (response_key s) (field_e (field s)) d) ds \<longrightarrow>
          unavailable_counter (deliver ds s) = unavailable_counter s + int (length ds)"
    using w by (simp add: deliver_failures)
  from 1 2 3 4 5 6 7 show ?thesis by blast
qed

theorem unavailable_counter_steps_witness:
  "\<not> write_in_progress mode_select
   \<and> unavailable_counter (handle_coordinator_update DataNone mode_select) = 6
   \<and> unavailable_counter (handle_coordinator_update silent_snapshot mode_select) = 0
   \<and> unavailable_counter
       (deliver [DataNone, DataNotDict, DataDict Map.empty] mode_select) = 8
   \<and> unavailable_counter
       (deliver [DataNone, DataNotDict, DataDict Map.empty, silent_snapshot] mode_select) = 0"
proof -
  have w: "\<not> write_in_progress mode_select"
    by (simp add: example_defs)
  have e: "unavailable_counter mode_select = 5"
    "response_key mode_select = ''charging_mode''"
    "enum_cls (field_e (field mode_select)) = ''ChargingMode''"
    by (simp_all add: example_defs)
  have v: "snapshot_valid (response_key mode_select) (field_e (field mode_select)) silent_snapshot"
    "\<not> snapshot_valid (response_key mode_select) (field_e (field mode_select)) DataNone"
    "\<not> snapshot_valid (response_key mode_select) (field_e (field mode_select)) DataNotDict"
    "\<not> snapshot_valid (response_key mode_select) (field_e (field mode_select)) (DataDict Map.empty)"
    by (simp_all add: example_defs snapshot_valid_def dict_get_def)
  show ?thesis
    using w e v
      unavailable_counter_steps
        [OF w, where m = "[''charging_mode'' \<mapsto> PyEnum ''ChargingMode'' ''SILENT'']"
           and v = "PyEnum ''ChargingMode'' ''SILENT''"
           and ds = "[DataNone, DataNotDict, DataDict Map.empty]"
           and d = silent_snapshot]
    by (simp add: silent_snapshot_def)
qed

section \<open>Availability\<close>

text \<open>
  C5, as amended. Once the update handler has processed a successful snapshot for the
  field, that is, one delivered while no write is in progress, the availability query
  returns true after every further sequence of operations; more generally no operation
  turns an available entity unavailable. An update whose snapshot fails for the field
  leaves the current option and the availability as they are: either it changes nothing
  (a write is in progress), or it adds 1 to the counter, sets the staleness attributes
  (counter, cause, stale flag) and publishes.
\<close>

theorem availability_is_permanent:
  "(\<not> write_in_progress s \<and> snapshot_valid (response_key s) (field_e (field s)) d \<longrightarrow>
      available (run_operations ops (handle_coordinator_update d s)))
   \<and> (available s \<longrightarrow> available (run_operations ops s))
   \<and> (\<not> snapshot_valid (response_key s) (field_e (field s)) d \<longrightarrow>
        current_option (handle_coordinator_update d s) = current_option s
        \<and> available (handle_coordinator_update d s) = available s
        \<and> (handle_coordinator_update d s = s
            \<or> (\<exists>cause. handle_coordinator_update d s
                  = async_write_ha_state
                      (s\<lparr>unavailable_counter := unavailable_counter s + 1,
                         attr_extra_state_attributes :=
                           Some (stale_attributes (unavailable_counter s + 1) cause)\<rparr>))))"
proof -
  have 1: "\<not> write_in_progress s \<and> snapshot_valid (response_key s) (field_e (field s)) d \<longrightarrow>
      available (run_operations ops (handle_coordinator_update d s))"
    by (simp add: available_def handle_valid run_available_mono)
  have 2: "available s \<longrightarrow> available (run_operations ops s)"
    by (simp add: available_def run_available_mono)
  have 3: "\<not> snapshot_valid (response_key s) (field_e (field s)) d \<longrightarrow>
        current_option (handle_coordinator_update d s) = current_option s
        \<and> available (handle_coordinator_update d s) = available s
        \<and> (handle_coordinator_update d s = s
            \<or> (\<exists>cause. handle_coordinator_update d s
                  = async_write_ha_state
                      (s\<lparr>unavailable_counter := unavailable_counter s + 1,
                         attr_extra_state_attributes :=
                           Some (stale_attributes (unavailable_counter s + 1) cause)\<rparr>)))"
  proof
    assume n: "\<not> snapshot_valid (response_key s) (field_e (field s)) d"
    show "current_option (handle_coordinator_update d s) = current_option s
        \<and> available (handle_coordinator_update d s) = available s
        \<and> (handle_coordinator_update d s = s
            \<or> (\<exists>cause. handle_coordinator_update d s
                  = async_write_ha_state
                      (s\<lparr>unavailable_counter := unavailable_counter s + 1,
                         attr_extra_state_attributes :=
                           Some (stale_attributes (unavailable_counter s + 1) cause)\<rparr>)))"
    proof (cases "write_in_progress s")
      case True
      then show ?thesis by (simp add: handle_in_progress)
    next
      case False
      then obtain cause where "handle_coordinator_update d s = set_unavailable cause s"
        using n handle_invalid by blast
      then show ?thesis
        by (auto simp add: available_def set_unavailable_def async_write_ha_state_def Let_def)
    qed
  qed
  from 1 2 3 show ?thesis by blast
qed

theorem availability_is_permanent_witness:
  "available (run_operations [CoordinatorUpdate DataNone, CoordinatorUpdate DataNotDict]
      (handle_coordinator_update silent_snapshot mode_select))
   \<and> current_option (handle_coordinator_update DataNone
        (handle_coordinator_update silent_snapshot mode_select)) = Some ''SILENT''"
proof -
  have a: "\<not> write_in_progress mode_select"
    "snapshot_valid (response_key mode_select) (field_e (field mode_select)) silent_snapshot"
    by (simp_all add: example_defs snapshot_valid_def dict_get_def)
  have b: "\<not> snapshot_valid (response_key (handle_coordinator_update silent_snapshot mode_select))
      (field_e (field (handle_coordinator_update silent_snapshot mode_select))) DataNone"
    by (simp add: snapshot_valid_def)
  have c: "current_option (handle_coordinator_update silent_snapshot mode_select) = Some ''SILENT''"
    by (simp add: example_defs handler_defs dict_get_def)
  show ?thesis
    using a b c
      availability_is_permanent [where s = mode_select and d = silent_snapshot
        and ops = "[CoordinatorUpdate DataNone, CoordinatorUpdate DataNotDict]"]
      availability_is_permanent [where s = "handle_coordinator_update silent_snapshot mode_select"
        and d = DataNone]
    by (simp del: run_operations.simps)
qed

text \<open>
  C5 as stated fails for a successful snapshot delivered during a write: the handler
  skips it. Here a new entity gets a select whose exchange times out; the snapshot
  delivered during the exchange holds the field, and the entity is still unavailable
  after the write and after a later update.
\<close>

theorem snapshot_during_write_counterexample:
  "snapshot_valid (response_key mode_select) (field_e (field mode_select)) silent_snapshot
   \<and> \<not> available
       (run_operations
          [SelectOption ready_coordinator
             (quiet_env\<lparr>during_write := [silent_snapshot], write_result := Some TimeoutError\<rparr>)
             ''TURBO'',
           CoordinatorUpdate DataNone]
          mode_select)"
  by (simp add: example_defs snapshot_valid_def dict_get_def available_def
      async_select_option_def write_to_device_def optimistic_state_def handler_defs Let_def)

section \<open>A new entity\<close>



section \<open>The first refresh\<close>

text \<open>
  C6. When the configuration parses and the device's address is present, setup returns
  \<open>True\<close> whatever the first-refresh attempts do, and makes at most 5 of them. If
  attempt \<open>k\<close> (between 1 and 5) is the first to succeed, the effects are attempt and a
  sleep of 5 for each of the attempts 1 to \<open>k - 1\<close>, then attempt \<open>k\<close>, and the loop
  is over: storing coordinator and lock and forwarding the entry follow. If all five
  attempts fail, each of the attempts 1 to 4 is followed by a sleep of 5, attempt 5 is
  followed by no sleep, no exception leaves setup, and the same final steps follow.
\<close>

theorem bootstrap_retry:
  "config_present env \<Longrightarrow> address_present env \<Longrightarrow>
     snd (async_setup_entry env) = Inr True
     \<and> attempts_made (fst (async_setup_entry env)) \<le> 5
     \<and> (1 \<le> k \<and> k \<le> 5 \<and> first_refresh env k = None
          \<and> (\<forall>i. 1 \<le> i \<and> i < k \<longrightarrow> first_refresh env i \<noteq> None) \<longrightarrow>
        fst (async_setup_entry env)
          = concat (map (\<lambda>i. [FirstRefresh i, RetrySleep 5]) [1..<k])
              @ [FirstRefresh k, StoreCoordinator, StoreLock, ForwardEntrySetups])
     \<and> ((\<forall>i. 1 \<le> i \<and> i \<le> 5 \<longrightarrow> first_refresh env i \<noteq> None) \<longrightarrow>
        fst (async_setup_entry env)
          = concat (map (\<lambda>i. [FirstRefresh i, RetrySleep 5]) [1..<5])
              @ [FirstRefresh 5, StoreCoordinator, StoreLock, ForwardEntrySetups])"
proof -
  assume p: "config_present env" "address_present env"
  let ?loop = "retry_loop (first_refresh env) [1..<max_initial_attempts + 1] []"
  have tr: "fst (async_setup_entry env) = ?loop @ [StoreCoordinator, StoreLock, ForwardEntrySetups]"
    using p by (simp add: async_setup_entry_def)
  have 1: "snd (async_setup_entry env) = Inr True"
    using p by (simp add: async_setup_entry_def)
  have "attempts_made ?loop \<le> attempts_made [] + length [1..<max_initial_attempts + 1]"
    by (rule retry_loop_attempts)
  then have "attempts_made ?loop \<le> 5"
    by (simp add: attempts_made_def max_initial_attempts_def)
  moreover have "attempts_made (fst (async_setup_entry env)) = attempts_made ?loop"
    by (simp only: tr) (simp add: attempts_made_def)
  ultimately have 2: "attempts_made (fst (async_setup_entry env)) \<le> 5"
    by simp
  have 3: "1 \<le> k \<and> k \<le> 5 \<and> first_refresh env k = None
          \<and> (\<forall>i. 1 \<le> i \<and> i < k \<longrightarrow> first_refresh env i \<noteq> None) \<longrightarrow>
        fst (async_setup_entry env)
          = concat (map (\<lambda>i. [FirstRefresh i, RetrySleep 5]) [1..<k])
              @ [FirstRefresh k, StoreCoordinator, StoreLock, ForwardEntrySetups]"
  proof (intro impI, elim conjE)
    assume "1 \<le> k" "k \<le> 5" "first_refresh env k = None"
      "\<forall>i. 1 \<le> i \<and> i < k \<longrightarrow> first_refresh env i \<noteq> None"
    then have "?loop = concat (map (\<lambda>i. [FirstRefresh i, RetrySleep 5]) [1..<k]) @ [FirstRefresh k]"
      by (rule retry_loop_success)
    then show "fst (async_setup_entry env)
          = concat (map (\<lambda>i. [FirstRefresh i, RetrySleep 5]) [1..<k])
              @ [FirstRefresh k, StoreCoordinator, StoreLock, ForwardEntrySetups]"
      by (simp only: tr append_assoc append_Cons append_Nil)
  qed
  have 4: "(\<forall>i. 1 \<le> i \<and> i \<le> 5 \<longrightarrow> first_refresh env i \<noteq> None) \<longrightarrow>
        fst (async_setup_entry env)
          = concat (map (\<lambda>i. [FirstRefresh i, RetrySleep 5]) [1..<5])
              @ [FirstRefresh 5, StoreCoordinator, StoreLock, ForwardEntrySetups]"
  proof
    assume "\<forall>i. 1 \<le> i \<and> i \<le> 5 \<longrightarrow> first_refresh env i \<noteq> None"
    then have "?loop = concat (map (\<lambda>i. [FirstRefresh i, RetrySleep 5]) [1..<5]) @ [FirstRefresh 5]"
      by (rule retry_loop_exhausted)
    then show "fst (async_setup_entry env)
          = concat (map (\<lambda>i. [FirstRefresh i, RetrySleep 5]) [1..<5])
              @ [FirstRefresh 5, StoreCoordinator, StoreLock, ForwardEntrySetups]"
      by (simp only: tr append_assoc append_Cons append_Nil)
  qed
  from 1 2 3 4 show ?thesis by blast
qed

theorem bootstrap_retry_witness:
  "async_setup_entry flaky_env
     = ([FirstRefresh 1, RetrySleep 5, FirstRefresh 2, RetrySleep 5, FirstRefresh 3,
         StoreCoordinator, StoreLock, ForwardEntrySetups], Inr True)
   \<and> async_setup_entry unreachable_env
     = ([FirstRefresh 1, RetrySleep 5, FirstRefresh 2, RetrySleep 5, FirstRefresh 3,
         RetrySleep 5, FirstRefresh 4, RetrySleep 5, FirstRefresh 5,
         StoreCoordinator, StoreLock, ForwardEntrySetups], Inr True)"
proof -
  have a: "config_present flaky_env" "address_present flaky_env"
    by (simp_all add: flaky_env_def)
  have b: "config_present unreachable_env" "address_present unreachable_env"
    by (simp_all add: unreachable_env_def)
  have c: "1 \<le> (3::nat) \<and> (3::nat) \<le> 5 \<and> first_refresh flaky_env 3 = None
      \<and> (\<forall>i. 1 \<le> i \<and> i < 3 \<longrightarrow> first_refresh flaky_env i \<noteq> None)"
    by (simp add: flaky_env_def)
  have d: "\<forall>i. 1 \<le> i \<and> i \<le> 5 \<longrightarrow> first_refresh unreachable_env i \<noteq> None"
    by (simp add: unreachable_env_def)
  have "fst (async_setup_entry flaky_env)
      = [FirstRefresh 1, RetrySleep 5, FirstRefresh 2, RetrySleep 5, FirstRefresh 3,
         StoreCoordinator, StoreLock, ForwardEntrySetups]
    \<and> snd (async_setup_entry flaky_env) = Inr True"
    using c bootstrap_retry [OF a, where k = 3] by (simp add: upt_1_3)
  moreover have "fst (async_setup_entry unreachable_env)
      = [FirstRefresh 1, RetrySleep 5, FirstRefresh 2, RetrySleep 5, FirstRefresh 3,
         RetrySleep 5, FirstRefresh 4, RetrySleep 5, FirstRefresh 5,
         StoreCoordinator, StoreLock, ForwardEntrySetups]
    \<and> snd (async_setup_entry unreachable_env) = Inr True"
    using d bootstrap_retry [OF b, where k = 1] by (simp add: upt_1_5)
  ultimately show ?thesis
    by (simp add: prod_eq_iff)
qed

end
